theory Spec2Isabelle
  imports Main
begin

section \<open>The spaCy encoder of torchnlp\<close>

text \<open>
  A shallow embedding of \<^verbatim>\<open>torchnlp/encoders/text/spacy_encoder.py\<close>: the module
  function \<^verbatim>\<open>_tokenize\<close>, the constructor of \<^verbatim>\<open>SpacyEncoder\<close> and its method
  \<^verbatim>\<open>batch_encode\<close>. The spaCy library and the base class
  \<^verbatim>\<open>StaticTokenizerEncoder\<close> are not part of the file: the library is a parameter
  (what importing it gives, what its loader and its pipelines return), and so is the
  base constructor. Of torch the file uses \<^verbatim>\<open>torch.tensor\<close> on a list of integers.
\<close>

subsection \<open>Python values, exceptions and effects\<close>

text \<open>
  The exceptions the file raises, catches or lets through. A subclass is filed under
  the class the \<^verbatim>\<open>except\<close> clause names (\<^verbatim>\<open>ModuleNotFoundError\<close> under
  \<^verbatim>\<open>ImportError\<close>, \<^verbatim>\<open>FileNotFoundError\<close> under \<^verbatim>\<open>OSError\<close>);
  \<^verbatim>\<open>RuntimeError\<close> is what \<^verbatim>\<open>torch.tensor\<close> raises; anything else is \<open>OtherError\<close>.
  The argument is the message.
\<close>

datatype exn =
    TypeError string
  | ImportError string
  | ValueError string
  | OSError string
  | RuntimeError string
  | OtherError string

text \<open>
  The classes of the specification's error taxonomy: \<open>InvalidArgument\<close> is what the
  code raises as \<^verbatim>\<open>TypeError\<close> or \<^verbatim>\<open>ValueError\<close>, \<open>DependencyMissing\<close> what it
  lets through as \<^verbatim>\<open>ImportError\<close>.
\<close>

fun InvalidArgument :: "exn \<Rightarrow> bool" where
  "InvalidArgument (TypeError m) = True"
| "InvalidArgument (ValueError m) = True"
| "InvalidArgument e = False"

fun DependencyMissing :: "exn \<Rightarrow> bool" where
  "DependencyMissing (ImportError m) = True"
| "DependencyMissing e = False"

text \<open>
  A value passed to the constructor: a Python string, or any other object (the sample,
  a flag, an index, a callable).
\<close>

datatype 'a pyval = Str string | Obj 'a

text \<open>
  What the constructor does to the world, in the order it does it: the import
  statement, a line printed on standard output, the call of \<^verbatim>\<open>spacy.load\<close> with the
  language and the disabled components, and the call of the base constructor.
\<close>

datatype event =
    Import_spacy
  | Print string
  | Spacy_load string "string list"
  | Super_init

subsection \<open>The spaCy library\<close>

text \<open>A token of a spaCy document; the code reads its attribute \<^verbatim>\<open>text\<close> only.\<close>

record token =
  tok_text :: string

text \<open>
  A loaded pipeline, the object \<^verbatim>\<open>spacy.load\<close> returns: \<open>call\<close> is
  \<^verbatim>\<open>nlp(s)\<close>, the document of one string as its token sequence, or the exception
  raised. \<open>pipe\<close> is the generator \<^verbatim>\<open>nlp.pipe(texts, n_threads=k)\<close>, given as the
  outcomes of its successive steps: a step yields a document or raises, and the end
  of the list is the end of the iteration. A \<^verbatim>\<open>for\<close> loop over the generator runs
  its body between two steps, so it sees the outcomes one at a time.
\<close>

record tokenizer =
  call :: "string \<Rightarrow> exn + token list"
  pipe :: "string list \<Rightarrow> int \<Rightarrow> (exn + token list) list"

text \<open>The module \<^verbatim>\<open>spacy\<close>: \<open>load\<close> is \<^verbatim>\<open>spacy.load(name, disable=...)\<close>.\<close>

record spacy_module =
  load :: "string \<Rightarrow> string list \<Rightarrow> exn + tokenizer"

subsection \<open>The encoder object\<close>

text \<open>
  The attributes of the base class that \<^verbatim>\<open>batch_encode\<close> reads: the vocabulary
  \<^verbatim>\<open>stoi\<close> (a dict from token text to index), the two indexes and the flag.
\<close>

record StaticTokenizerEncoder =
  stoi :: "string \<rightharpoonup> int"
  unknown_index :: int
  eos_index :: int
  append_eos :: bool

record SpacyEncoder = StaticTokenizerEncoder +
  spacy :: tokenizer

text \<open>
  The runtime the constructor runs in: what \<^verbatim>\<open>import spacy\<close> gives (the module, or the
  exception it raises), Python's \<^verbatim>\<open>str\<close> on a value that is not a string, and the
  constructor of the base class, which receives the positional arguments, the keyword
  arguments and the tokenizing function and sets the base attributes or raises.
\<close>

record 'a runtime =
  import_spacy :: "exn + spacy_module"
  str_of :: "'a \<Rightarrow> string"
  super_init :: "'a pyval list \<Rightarrow> (string \<rightharpoonup> 'a pyval) \<Rightarrow> (string \<Rightarrow> exn + string list)
                   \<Rightarrow> exn + StaticTokenizerEncoder"

subsection \<open>The module function\<close>

text \<open>\<^verbatim>\<open>def _tokenize(s, tokenizer): return [w.text for w in tokenizer(s)]\<close>\<close>

definition tokenize_fn :: "string \<Rightarrow> tokenizer \<Rightarrow> exn + string list" where
  "tokenize_fn s tokenizer =
     (case call tokenizer s of
        Inl e \<Rightarrow> Inl e
      | Inr doc \<Rightarrow> Inr (map tok_text doc))"

subsection \<open>The constructor\<close>

definition supported_languages :: "string list" where
  "supported_languages = [''en'', ''de'', ''es'', ''pt'', ''fr'', ''it'', ''nl'', ''xx'']"

text \<open>
  Python's \<^verbatim>\<open>repr\<close> of a string without quotes, backslashes or control characters,
  and of a list of such strings, which is what \<^verbatim>\<open>%s\<close> prints for the list.
\<close>

definition repr_str :: "string \<Rightarrow> string" where
  "repr_str s = [CHR 0x27] @ s @ [CHR 0x27]"

fun join :: "string \<Rightarrow> string list \<Rightarrow> string" where
  "join sep [] = []"
| "join sep [x] = x"
| "join sep (x # y # ys) = x @ sep @ join sep (y # ys)"

definition repr_list :: "string list \<Rightarrow> string" where
  "repr_list xs = ''['' @ join '', '' (map repr_str xs) @ '']''"

text \<open>The messages of the constructor.\<close>

definition tokenize_message :: string where
  "tokenize_message = ''Encoder does not take keyword argument tokenize.''"

definition install_message :: string where
  "install_message = ''Please install spaCy: `pip install spacy`''"

text \<open>
  \<^verbatim>\<open>("Language '{0}' not found. Install using spaCy: `python -m spacy download {0}`").format(language)\<close>
\<close>

definition not_found_message :: "string \<Rightarrow> string" where
  "not_found_message language =
     ''Language '' @ [CHR 0x27] @ language @ [CHR 0x27] @
     '' not found. Install using spaCy: `python -m spacy download '' @ language @ ''`''"

text \<open>
  \<^verbatim>\<open>("No tokenizer available for language '%s'. " + "Currently supported are %s") % (language, supported_languages)\<close>
\<close>

definition unsupported_message :: "string \<Rightarrow> string list \<Rightarrow> string" where
  "unsupported_message language supported =
     ''No tokenizer available for language '' @ [CHR 0x27] @ language @ [CHR 0x27] @
     ''. Currently supported are '' @ repr_list supported"

text \<open>\<^verbatim>\<open>str(v)\<close>, as \<^verbatim>\<open>%s\<close> applies it.\<close>

fun py_str :: "'a runtime \<Rightarrow> 'a pyval \<Rightarrow> string" where
  "py_str rt (Str s) = s"
| "py_str rt (Obj a) = str_of rt a"

text \<open>
  \<^verbatim>\<open>SpacyEncoder.__init__(self, *args, **kwargs)\<close>. The result is the trace of effects and
  either the exception that leaves the constructor or the constructed encoder.
  \<^verbatim>\<open>language in supported_languages\<close> compares with \<^verbatim>\<open>==\<close>, which no object other than
  a string satisfies against a string.
\<close>

definition SpacyEncoder_init ::
  "'a runtime \<Rightarrow> 'a pyval list \<Rightarrow> (string \<rightharpoonup> 'a pyval) \<Rightarrow> event list \<times> (exn + SpacyEncoder)" where
  "SpacyEncoder_init rt args kwargs =
     (if kwargs ''tokenize'' \<noteq> None then ([], Inl (TypeError tokenize_message))
      else case import_spacy rt of
        Inl (ImportError m) \<Rightarrow> ([Import_spacy, Print install_message], Inl (ImportError m))
      | Inl e \<Rightarrow> ([Import_spacy], Inl e)
      | Inr spacy_mod \<Rightarrow>
          (let language = (case kwargs ''language'' of None \<Rightarrow> Str ''en'' | Some v \<Rightarrow> v) in
           case language of
             Obj a \<Rightarrow>
               ([Import_spacy],
                Inl (ValueError (unsupported_message (py_str rt language) supported_languages)))
           | Str l \<Rightarrow>
               if l \<in> set supported_languages then
                 (let disable = [''parser'', ''tagger'', ''ner''] in
                  case load spacy_mod l disable of
                    Inl (OSError m) \<Rightarrow>
                      ([Import_spacy, Spacy_load l disable], Inl (ValueError (not_found_message l)))
                  | Inl e \<Rightarrow> ([Import_spacy, Spacy_load l disable], Inl e)
                  | Inr nlp \<Rightarrow>
                      (case super_init rt args kwargs (\<lambda>s. tokenize_fn s nlp) of
                         Inl e \<Rightarrow> ([Import_spacy, Spacy_load l disable, Super_init], Inl e)
                       | Inr base \<Rightarrow>
                           ([Import_spacy, Spacy_load l disable, Super_init],
                            Inr \<lparr>stoi = stoi base, unknown_index = unknown_index base,
                                 eos_index = eos_index base, append_eos = append_eos base,
                                 spacy = nlp\<rparr>)))
               else
                 ([Import_spacy],
                  Inl (ValueError (unsupported_message (py_str rt language) supported_languages)))))"

subsection \<open>Batch encoding\<close>

text \<open>\<^verbatim>\<open>d.get(key, default)\<close> of a Python dict.\<close>

definition dict_get :: "('k \<rightharpoonup> 'v) \<Rightarrow> 'k \<Rightarrow> 'v \<Rightarrow> 'v" where
  "dict_get d key dflt = (case d key of Some v \<Rightarrow> v | None \<Rightarrow> dflt)"

text \<open>
  \<^verbatim>\<open>torch.tensor(vector)\<close> on a list of Python integers. The elements of the tensor are
  signed 64-bit integers: an integer outside that range makes the call raise
  \<^verbatim>\<open>RuntimeError\<close>, and otherwise the tensor holds the integers of the list, by which
  it is modelled. The message is torch's; no property below depends on its wording.
\<close>

definition int64 :: "int \<Rightarrow> bool" where
  "int64 i = (- (2 ^ 63) \<le> i \<and> i < 2 ^ 63)"

definition overflow_message :: string where
  "overflow_message = ''Overflow when unpacking long''"

definition torch_tensor :: "int list \<Rightarrow> exn + int list" where
  "torch_tensor vector =
     (if list_all int64 vector then Inr vector else Inl (RuntimeError overflow_message))"

text \<open>
  The body of the loop of \<^verbatim>\<open>batch_encode\<close> up to the tensor, for one document: the
  token texts, the vector of their indexes
  (\<^verbatim>\<open>self.stoi.get(token, self.unknown_index)\<close>), and the end-of-sequence index appended
  when \<^verbatim>\<open>self.append_eos\<close> holds.
\<close>

definition encode_tokens :: "SpacyEncoder \<Rightarrow> token list \<Rightarrow> int list" where
  "encode_tokens self tokens =
     (let text = map tok_text tokens;
          vector = map (\<lambda>token. dict_get (stoi self) token (unknown_index self)) text
      in if append_eos self then vector @ [eos_index self] else vector)"

text \<open>
  The loop over the generator. A step of the generator that raises ends the method
  with that exception; a step that yields a document is followed by the body, which
  appends the tensor of the vector to \<^verbatim>\<open>return_\<close> or ends the method with the
  exception of \<^verbatim>\<open>torch.tensor\<close>; when the generator is exhausted \<^verbatim>\<open>return_\<close> is
  returned.
\<close>

fun batch_loop ::
  "SpacyEncoder \<Rightarrow> (exn + token list) list \<Rightarrow> int list list \<Rightarrow> exn + int list list" where
  "batch_loop self [] return' = Inr return'"
| "batch_loop self (Inl e # steps) return' = Inl e"
| "batch_loop self (Inr tokens # steps) return' =
     (case torch_tensor (encode_tokens self tokens) of
        Inl e \<Rightarrow> Inl e
      | Inr t \<Rightarrow> batch_loop self steps (return' @ [t]))"

text \<open>
  \<^verbatim>\<open>SpacyEncoder.batch_encode(self, sequences)\<close>. The method assigns no attribute of
  \<^verbatim>\<open>self\<close>; the encoder is returned beside the result, as the method leaves it. An
  exception leaves the method, and the vectors built so far are lost.
\<close>

definition batch_encode ::
  "SpacyEncoder \<Rightarrow> string list \<Rightarrow> SpacyEncoder \<times> (exn + int list list)" where
  "batch_encode self sequences =
     (self, batch_loop self (pipe (spacy self) sequences (- 1)) [])"

subsection \<open>The single-item path and the contract of the pipeline\<close>

text \<open>
  A Python loop that calls \<open>f\<close> on each element in turn and collects the results; the
  first exception ends it.
\<close>

fun for_each :: "('a \<Rightarrow> exn + 'b) \<Rightarrow> 'a list \<Rightarrow> exn + 'b list" where
  "for_each f [] = Inr []"
| "for_each f (x # xs) =
     (case f x of
        Inl e \<Rightarrow> Inl e
      | Inr y \<Rightarrow> (case for_each f xs of Inl e \<Rightarrow> Inl e | Inr ys \<Rightarrow> Inr (y # ys)))"

text \<open>The outcomes of a generator that a consumer can see: those up to the first raise.\<close>

fun until_raise :: "(exn + 'a) list \<Rightarrow> (exn + 'a) list" where
  "until_raise [] = []"
| "until_raise (Inl e # steps) = [Inl e]"
| "until_raise (Inr x # steps) = Inr x # until_raise steps"

text \<open>
  What spaCy documents of \<^verbatim>\<open>Language.pipe\<close>: the texts are processed as a stream and
  the documents are yielded in the order of the texts, each of them the document that
  calling the pipeline on that text gives; a text on which the call raises makes the
  step for that text raise. The library is not part of the repository, so this is a
  condition on the tokenizer handle, stated for the texts at hand.
\<close>

definition pipe_in_order :: "tokenizer \<Rightarrow> string list \<Rightarrow> bool" where
  "pipe_in_order nlp texts =
     (until_raise (pipe nlp texts (- 1)) = until_raise (map (call nlp) texts))"

text \<open>
  Modelled from the spec: the single-item \<^verbatim>\<open>encode\<close> that \<^verbatim>\<open>SpacyEncoder\<close> inherits
  from \<^verbatim>\<open>StaticTokenizerEncoder\<close>, whose file is missing. By the specification the
  batch path duplicates the logic of the base class: the string is split by the
  tokenizing function that the constructor handed to the base class (\<^verbatim>\<open>_tokenize\<close>
  bound to the loaded pipeline), each token text is looked up in the vocabulary with
  the unknown index for an absent one, the end-of-sequence index is appended when
  the encoder was configured so, and the vector is made a tensor.
\<close>

definition encode :: "SpacyEncoder \<Rightarrow> string \<Rightarrow> exn + int list" where
  "encode self s =
     (case tokenize_fn s (spacy self) of
        Inl e \<Rightarrow> Inl e
      | Inr text \<Rightarrow>
          (let vector = map (\<lambda>token. dict_get (stoi self) token (unknown_index self)) text
           in torch_tensor (if append_eos self then vector @ [eos_index self] else vector)))"

subsection \<open>A small runtime for concrete runs\<close>

text \<open>
  A pipeline that makes one token of every character, and whose \<open>pipe\<close> goes through
  the texts in order; a module that has a model for English only; a base constructor
  that sets a three-word vocabulary; an encoder whose unknown index is \<open>2 ^ 63\<close>.
\<close>

definition char_tokens :: "string \<Rightarrow> token list" where
  "char_tokens s = map (\<lambda>c. \<lparr>tok_text = [c]\<rparr>) s"

definition char_nlp :: tokenizer where
  "char_nlp = \<lparr>call = (\<lambda>s. Inr (char_tokens s)),
               pipe = (\<lambda>texts n. map (\<lambda>s. Inr (char_tokens s)) texts)\<rparr>"

definition english_only :: spacy_module where
  "english_only =
     \<lparr>load = (\<lambda>name disable. if name = ''en'' then Inr char_nlp
                                else Inl (OSError ''model not found''))\<rparr>"

definition abc_base :: StaticTokenizerEncoder where
  "abc_base = \<lparr>stoi = [''a'' \<mapsto> 5, ''b'' \<mapsto> 6, ''c'' \<mapsto> 7],
               unknown_index = 1, eos_index = 2, append_eos = True\<rparr>"

definition abc_encoder :: "bool \<Rightarrow> SpacyEncoder" where
  "abc_encoder eos =
     \<lparr>stoi = [''a'' \<mapsto> 5, ''b'' \<mapsto> 6, ''c'' \<mapsto> 7],
      unknown_index = 1, eos_index = 2, append_eos = eos, spacy = char_nlp\<rparr>"

definition huge_unknown :: SpacyEncoder where
  "huge_unknown =
     \<lparr>stoi = [''a'' \<mapsto> 5, ''b'' \<mapsto> 6, ''c'' \<mapsto> 7],
      unknown_index = 9223372036854775808, eos_index = 2, append_eos = False,
      spacy = char_nlp\<rparr>"

definition with_spacy :: "unit runtime" where
  "with_spacy = \<lparr>import_spacy = Inr english_only,
                 str_of = (\<lambda>u. ''None''),
                 super_init = (\<lambda>args kwargs tokenize. Inr abc_base)\<rparr>"

definition without_spacy :: "unit runtime" where
  "without_spacy = \<lparr>import_spacy = Inl (ImportError ''No module named spacy''),
                    str_of = (\<lambda>u. ''None''),
                    super_init = (\<lambda>args kwargs tokenize. Inr abc_base)\<rparr>"

section \<open>Properties\<close>

subsection \<open>Loops\<close>

lemma for_each_total:
  "\<forall>x\<in>set xs. \<exists>y. f x = Inr y \<Longrightarrow>
   \<exists>ys. for_each f xs = Inr ys \<and> length ys = length xs \<and>
        (\<forall>i<length xs. f (xs ! i) = Inr (ys ! i))"
proof (induction xs)
  case Nil
  then show ?case by simp
next
  case (Cons x xs)
  then obtain y where y: "f x = Inr y" by auto
  from Cons obtain ys where ys: "for_each f xs = Inr ys" "length ys = length xs"
    "\<forall>i<length xs. f (xs ! i) = Inr (ys ! i)" by auto
  have "\<forall>i<length (x # xs). f ((x # xs) ! i) = Inr ((y # ys) ! i)"
    using y ys(3) by (auto simp: nth_Cons split: nat.splits)
  then show ?case using y ys by auto
qed

lemma for_each_returns:
  "for_each f xs = Inr ys \<Longrightarrow>
   length ys = length xs \<and> (\<forall>i<length xs. f (xs ! i) = Inr (ys ! i))"
proof (induction xs arbitrary: ys)
  case Nil
  then show ?case by simp
next
  case (Cons x xs)
  from Cons.prems obtain y zs where y: "f x = Inr y" and zs: "for_each f xs = Inr zs"
    and ys: "ys = y # zs"
    by (auto split: sum.splits)
  from Cons.IH [OF zs] have "length zs = length xs"
    and "\<forall>i<length xs. f (xs ! i) = Inr (zs ! i)" by auto
  then show ?case using y ys by (auto simp: nth_Cons split: nat.splits)
qed

lemma for_each_raises:
  "for_each f xs = Inl e \<Longrightarrow> \<exists>x\<in>set xs. f x = Inl e"
  by (induction xs) (auto split: sum.splits)

lemma for_each_map: "for_each f (map g xs) = for_each (\<lambda>x. f (g x)) xs"
  by (induction xs) (auto split: sum.splits)

lemma for_each_until_raise:
  "for_each (\<lambda>r. case r of Inl e \<Rightarrow> Inl e | Inr d \<Rightarrow> g d) (until_raise steps) =
   for_each (\<lambda>r. case r of Inl e \<Rightarrow> Inl e | Inr d \<Rightarrow> g d) steps"
  by (induction steps rule: until_raise.induct) (auto split: sum.splits)

subsection \<open>The loop of the batch path\<close>

lemma torch_tensor_returns: "torch_tensor v = Inr t \<longleftrightarrow> list_all int64 v \<and> t = v"
  by (auto simp: torch_tensor_def)

lemma torch_tensor_raises:
  "torch_tensor v = Inl e \<longleftrightarrow> \<not> list_all int64 v \<and> e = RuntimeError overflow_message"
  by (auto simp: torch_tensor_def)

lemma batch_loop_for_each:
  "batch_loop self steps acc =
     (case for_each (\<lambda>r. case r of Inl e \<Rightarrow> Inl e
                               | Inr d \<Rightarrow> torch_tensor (encode_tokens self d)) steps of
        Inl e \<Rightarrow> Inl e
      | Inr vs \<Rightarrow> Inr (acc @ vs))"
  by (induction self steps acc rule: batch_loop.induct) (auto split: sum.splits)

lemma batch_encode_steps:
  "snd (batch_encode self sequences) =
     for_each (\<lambda>r. case r of Inl e \<Rightarrow> Inl e | Inr d \<Rightarrow> torch_tensor (encode_tokens self d))
       (pipe (spacy self) sequences (- 1))"
  by (simp add: batch_encode_def batch_loop_for_each split: sum.splits)

lemma batch_encode_docs:
  "pipe (spacy self) sequences (- 1) = map Inr docs \<Longrightarrow>
   snd (batch_encode self sequences) = for_each (\<lambda>d. torch_tensor (encode_tokens self d)) docs"
  by (simp add: batch_encode_steps for_each_map)

lemma batch_encode_in_order:
  assumes "pipe_in_order (spacy self) sequences"
  shows "snd (batch_encode self sequences) =
           for_each (\<lambda>s. case call (spacy self) s of
                             Inl e \<Rightarrow> Inl e
                           | Inr d \<Rightarrow> torch_tensor (encode_tokens self d)) sequences"
proof -
  let ?step = "\<lambda>r. case r of Inl e \<Rightarrow> Inl e | Inr d \<Rightarrow> torch_tensor (encode_tokens self d)"
  have "snd (batch_encode self sequences) =
          for_each ?step (until_raise (pipe (spacy self) sequences (- 1)))"
    by (simp only: batch_encode_steps for_each_until_raise)
  also have "\<dots> = for_each ?step (until_raise (map (call (spacy self)) sequences))"
    using assms by (simp only: pipe_in_order_def)
  also have "\<dots> = for_each ?step (map (call (spacy self)) sequences)"
    by (simp only: for_each_until_raise)
  finally show ?thesis by (simp only: for_each_map)
qed

subsection \<open>Batch path and single-item path\<close>

lemma encode_call:
  "encode self s =
     (case call (spacy self) s of
        Inl e \<Rightarrow> Inl e
      | Inr d \<Rightarrow> torch_tensor (encode_tokens self d))"
  by (simp add: encode_def tokenize_fn_def encode_tokens_def Let_def split: sum.splits)

text \<open>
  C1. On a tokenizer whose \<open>pipe\<close> yields, in order, the documents that calling it on
  each text gives, \<open>batch_encode\<close> returns what the loop of single-item \<open>encode\<close> over
  the same strings returns, the raised exception included; for a single string \<open>s\<close>,
  \<open>batch_encode [s]\<close> is the one-element list of \<open>encode s\<close>.
\<close>

theorem batch_encode_equals_encode_loop:
  "(pipe_in_order (spacy self) sequences \<longrightarrow>
      snd (batch_encode self sequences) = for_each (encode self) sequences) \<and>
   (pipe_in_order (spacy self) [s] \<longrightarrow>
      snd (batch_encode self [s]) =
        (case encode self s of Inl e \<Rightarrow> Inl e | Inr v \<Rightarrow> Inr [v]))"
proof -
  have e: "encode self = (\<lambda>s. case call (spacy self) s of
                                  Inl e \<Rightarrow> Inl e
                                | Inr d \<Rightarrow> torch_tensor (encode_tokens self d))"
    by (rule ext) (rule encode_call)
  have *: "snd (batch_encode self xs) = for_each (encode self) xs"
    if "pipe_in_order (spacy self) xs" for xs
    using batch_encode_in_order [OF that] by (simp only: e)
  show ?thesis
    using * [of sequences] * [of "[s]"] by (auto split: sum.splits)
qed

theorem batch_encode_equals_encode_loop_witness:
  "pipe_in_order (spacy (abc_encoder True)) [''abz'', [], ''c''] \<and>
   for_each (encode (abc_encoder True)) [''abz'', [], ''c''] = Inr [[5, 6, 1, 2], [2], [7, 2]] \<and>
   pipe_in_order (spacy (abc_encoder True)) [''ab''] \<and>
   snd (batch_encode (abc_encoder True) [''ab'']) =
     (case encode (abc_encoder True) ''ab'' of Inl e \<Rightarrow> Inl e | Inr v \<Rightarrow> Inr [v]) \<and>
   pipe_in_order (spacy huge_unknown) [''a'', ''z'', ''b''] \<and>
   for_each (encode huge_unknown) [''a'', ''z'', ''b''] = Inl (RuntimeError overflow_message)"
proof -
  have g: "pipe_in_order (spacy huge_unknown) [''a'', ''z'', ''b'']"
    by (simp add: pipe_in_order_def huge_unknown_def char_nlp_def)
  have o: "snd (batch_encode huge_unknown [''a'', ''z'', ''b'']) = Inl (RuntimeError overflow_message)"
    by (simp add: batch_encode_def huge_unknown_def char_nlp_def char_tokens_def
        encode_tokens_def dict_get_def torch_tensor_def int64_def)
  have 2: "for_each (encode huge_unknown) [''a'', ''z'', ''b''] = Inl (RuntimeError overflow_message)"
    using g o batch_encode_equals_encode_loop [of huge_unknown "[''a'', ''z'', ''b'']" "[]"]
    by simp
  have h: "pipe_in_order (spacy (abc_encoder True)) [''abz'', [], ''c'']"
    "pipe_in_order (spacy (abc_encoder True)) [''ab'']"
    by (simp_all add: pipe_in_order_def abc_encoder_def char_nlp_def)
  have b: "snd (batch_encode (abc_encoder True) [''abz'', [], ''c'']) = Inr [[5, 6, 1, 2], [2], [7, 2]]"
    by (simp add: batch_encode_def abc_encoder_def char_nlp_def char_tokens_def
        encode_tokens_def dict_get_def torch_tensor_def int64_def)
  show ?thesis
    using h batch_encode_equals_encode_loop [of "abc_encoder True" "[''abz'', [], ''c'']" "''ab''"] b
      g 2
    by simp
qed

subsection \<open>The checks of the constructor\<close>

text \<open>
  C2. Whatever the runtime, the positional arguments and the other keyword arguments,
  a constructor call with the keyword \<^verbatim>\<open>tokenize\<close> raises \<^verbatim>\<open>TypeError\<close>, an
  \<open>InvalidArgument\<close> error, and has done nothing before: the trace is empty.
\<close>

theorem tokenize_keyword_rejected:
  "kwargs ''tokenize'' = Some f \<Longrightarrow>
   SpacyEncoder_init rt args kwargs = ([], Inl (TypeError tokenize_message)) \<and>
   InvalidArgument (TypeError tokenize_message)"
  by (simp add: SpacyEncoder_init_def)

theorem tokenize_keyword_rejected_witness:
  "[''tokenize'' \<mapsto> Obj ()] ''tokenize'' = Some (Obj ()) \<and>
   SpacyEncoder_init without_spacy [Str ''a b''] [''tokenize'' \<mapsto> Obj ()] =
     ([], Inl (TypeError ''Encoder does not take keyword argument tokenize.''))"
  using tokenize_keyword_rejected
    [of "[''tokenize'' \<mapsto> Obj ()]" "Obj ()" without_spacy "[Str ''a b'']"]
  by (simp add: tokenize_message_def)

text \<open>
  C3, as stated, fails where the keyword \<^verbatim>\<open>tokenize\<close> is supplied as well: with spaCy
  present and the unsupported code \<^verbatim>\<open>zz\<close>, the error is the \<^verbatim>\<open>TypeError\<close> of the first
  check, whose message names neither the code nor the supported ones.
\<close>

theorem unsupported_language_counterexample:
  "import_spacy with_spacy = Inr english_only \<and>
   ''zz'' \<notin> set supported_languages \<and>
   snd (SpacyEncoder_init with_spacy [] [''tokenize'' \<mapsto> Obj (), ''language'' \<mapsto> Str ''zz''])
     = Inl (TypeError ''Encoder does not take keyword argument tokenize.'') \<and>
   snd (SpacyEncoder_init with_spacy [] [''tokenize'' \<mapsto> Obj (), ''language'' \<mapsto> Str ''zz''])
     \<noteq> Inl (ValueError (unsupported_message ''zz'' supported_languages))"
  by (simp add: SpacyEncoder_init_def with_spacy_def supported_languages_def tokenize_message_def)

text \<open>
  C3, amended. The supported languages are the eight codes \<^verbatim>\<open>en de es pt fr it nl xx\<close>.
  When the keyword \<^verbatim>\<open>tokenize\<close> is not supplied and spaCy can be imported, a language
  code outside the eight makes the constructor raise \<^verbatim>\<open>ValueError\<close>, an
  \<open>InvalidArgument\<close> error, whose message quotes the code and lists the eight; no model
  has been loaded.
\<close>

theorem unsupported_language_rejected:
  "supported_languages = [''en'', ''de'', ''es'', ''pt'', ''fr'', ''it'', ''nl'', ''xx''] \<and>
   length supported_languages = 8 \<and>
   (kwargs ''tokenize'' = None \<and> import_spacy rt = Inr spacy_mod \<and>
    kwargs ''language'' = Some (Str l) \<and> l \<notin> set supported_languages \<longrightarrow>
      SpacyEncoder_init rt args kwargs =
        ([Import_spacy],
         Inl (ValueError (''No tokenizer available for language '' @ [CHR 0x27] @ l @ [CHR 0x27] @
                ''. Currently supported are ['en', 'de', 'es', 'pt', 'fr', 'it', 'nl', 'xx']''))) \<and>
      InvalidArgument (ValueError (unsupported_message l supported_languages)))"
proof -
  have r: "repr_list supported_languages = ''['en', 'de', 'es', 'pt', 'fr', 'it', 'nl', 'xx']''"
    by (simp add: repr_list_def supported_languages_def repr_str_def)
  show ?thesis
    by (auto simp: SpacyEncoder_init_def unsupported_message_def r)
      (simp_all add: supported_languages_def)
qed

theorem unsupported_language_rejected_witness:
  "[''language'' \<mapsto> Str ''zz''] ''tokenize'' = None \<and>
   import_spacy with_spacy = Inr english_only \<and>
   ''zz'' \<notin> set supported_languages \<and>
   SpacyEncoder_init with_spacy [] [''language'' \<mapsto> Str ''zz''] =
     ([Import_spacy],
      Inl (ValueError (''No tokenizer available for language 'zz'. '' @
             ''Currently supported are ['en', 'de', 'es', 'pt', 'fr', 'it', 'nl', 'xx']'')))"
  using unsupported_language_rejected
    [of "[''language'' \<mapsto> Str ''zz'']" with_spacy english_only "''zz''" "[]"]
  by (simp add: with_spacy_def supported_languages_def)

text \<open>
  C4, as stated, fails where the keyword \<^verbatim>\<open>tokenize\<close> is supplied: with spaCy
  missing, the constructor raises the \<^verbatim>\<open>TypeError\<close> of the first check, which is not a
  \<open>DependencyMissing\<close> error, and prints nothing.
\<close>

theorem missing_library_counterexample:
  "import_spacy without_spacy = Inl (ImportError ''No module named spacy'') \<and>
   SpacyEncoder_init without_spacy [] [''tokenize'' \<mapsto> Obj ()] =
     ([], Inl (TypeError ''Encoder does not take keyword argument tokenize.'')) \<and>
   \<not> DependencyMissing (TypeError ''Encoder does not take keyword argument tokenize.'')"
  by (simp add: SpacyEncoder_init_def without_spacy_def tokenize_message_def)

text \<open>
  C4, amended. When the keyword \<^verbatim>\<open>tokenize\<close> is not supplied and importing spaCy
  raises \<^verbatim>\<open>ImportError\<close>, the constructor prints the installation guidance and then
  lets that \<^verbatim>\<open>ImportError\<close>, a \<open>DependencyMissing\<close> error, reach the caller.
\<close>

theorem missing_library_reported:
  "kwargs ''tokenize'' = None \<Longrightarrow> import_spacy rt = Inl (ImportError m) \<Longrightarrow>
   SpacyEncoder_init rt args kwargs =
     ([Import_spacy, Print ''Please install spaCy: `pip install spacy`''], Inl (ImportError m)) \<and>
   DependencyMissing (ImportError m)"
  by (simp add: SpacyEncoder_init_def install_message_def)

theorem missing_library_reported_witness:
  "[''language'' \<mapsto> Str ''en''] ''tokenize'' = None \<and>
   import_spacy without_spacy = Inl (ImportError ''No module named spacy'') \<and>
   SpacyEncoder_init without_spacy [] [''language'' \<mapsto> Str ''en''] =
     ([Import_spacy, Print ''Please install spaCy: `pip install spacy`''],
      Inl (ImportError ''No module named spacy''))"
  using missing_library_reported
    [of "[''language'' \<mapsto> Str ''en'']" without_spacy "''No module named spacy''" "[]"]
  by (simp add: without_spacy_def)

text \<open>
  C5, as stated, fails where the keyword \<^verbatim>\<open>tokenize\<close> is supplied: with spaCy
  present, the supported code \<^verbatim>\<open>de\<close> and no model installed for it, the constructor
  raises the \<^verbatim>\<open>TypeError\<close> of the first check, whose message does not name the
  language, and never calls \<^verbatim>\<open>spacy.load\<close>.
\<close>

theorem missing_model_counterexample:
  "import_spacy with_spacy = Inr english_only \<and>
   ''de'' \<in> set supported_languages \<and>
   load english_only ''de'' [''parser'', ''tagger'', ''ner''] = Inl (OSError ''model not found'') \<and>
   SpacyEncoder_init with_spacy [] [''tokenize'' \<mapsto> Obj (), ''language'' \<mapsto> Str ''de'']
     = ([], Inl (TypeError ''Encoder does not take keyword argument tokenize.'')) \<and>
   snd (SpacyEncoder_init with_spacy [] [''tokenize'' \<mapsto> Obj (), ''language'' \<mapsto> Str ''de''])
     \<noteq> Inl (ValueError (not_found_message ''de''))"
  by (simp add: SpacyEncoder_init_def with_spacy_def english_only_def supported_languages_def
      tokenize_message_def)

text \<open>
  C5, amended. When the keyword \<^verbatim>\<open>tokenize\<close> is not supplied, spaCy can be imported,
  the requested language (\<^verbatim>\<open>en\<close> when none is given) is a supported code, and
  \<^verbatim>\<open>spacy.load\<close> raises \<^verbatim>\<open>OSError\<close> for it, the constructor, having imported spaCy
  and called \<^verbatim>\<open>spacy.load\<close>, raises \<^verbatim>\<open>ValueError\<close>, an \<open>InvalidArgument\<close> error, whose
  message names the language and gives the command that downloads its model.
\<close>

theorem missing_model_reported:
  assumes "kwargs ''tokenize'' = None"
    and "import_spacy rt = Inr spacy_mod"
    and "(case kwargs ''language'' of None \<Rightarrow> Str ''en'' | Some v \<Rightarrow> v) = Str l"
    and "l \<in> set supported_languages"
    and "load spacy_mod l [''parser'', ''tagger'', ''ner''] = Inl (OSError m)"
  shows "SpacyEncoder_init rt args kwargs =
           ([Import_spacy, Spacy_load l [''parser'', ''tagger'', ''ner'']],
            Inl (ValueError (''Language '' @ [CHR 0x27] @ l @ [CHR 0x27] @
                   '' not found. Install using spaCy: `python -m spacy download '' @ l @ ''`''))) \<and>
         InvalidArgument (ValueError (not_found_message l))"
  using assms by (simp add: SpacyEncoder_init_def Let_def not_found_message_def)

theorem missing_model_reported_witness:
  "[''language'' \<mapsto> Str ''de''] ''tokenize'' = None \<and>
   import_spacy with_spacy = Inr english_only \<and>
   ''de'' \<in> set supported_languages \<and>
   load english_only ''de'' [''parser'', ''tagger'', ''ner''] = Inl (OSError ''model not found'') \<and>
   SpacyEncoder_init with_spacy [] [''language'' \<mapsto> Str ''de''] =
     ([Import_spacy, Spacy_load ''de'' [''parser'', ''tagger'', ''ner'']],
      Inl (ValueError ''Language 'de' not found. Install using spaCy: `python -m spacy download de`''))"
proof -
  have t: "[''language'' \<mapsto> (Str ''de'' :: unit pyval)] ''tokenize'' = None"
    by simp
  have a: "import_spacy with_spacy = Inr english_only"
    by (simp add: with_spacy_def)
  have b: "(case [''language'' \<mapsto> Str ''de''] ''language'' of None \<Rightarrow> Str ''en'' | Some v \<Rightarrow> v)
             = (Str ''de'' :: unit pyval)"
    by simp
  have c: "''de'' \<in> set supported_languages"
    by (simp add: supported_languages_def)
  have e: "load english_only ''de'' [''parser'', ''tagger'', ''ner''] = Inl (OSError ''model not found'')"
    by (simp add: english_only_def)
  show ?thesis
    using missing_model_reported
      [where kwargs = "[''language'' \<mapsto> Str ''de'']" and rt = with_spacy
        and spacy_mod = english_only and l = "''de''" and m = "''model not found''"
        and args = "[]", OF t a b c e]
      t a c e
    by simp
qed

lemma init_trace:
  "fst (SpacyEncoder_init rt args kwargs) = [] \<or>
   fst (SpacyEncoder_init rt args kwargs) = [Import_spacy] \<or>
   fst (SpacyEncoder_init rt args kwargs) = [Import_spacy, Print install_message] \<or>
   (\<exists>l d. fst (SpacyEncoder_init rt args kwargs) = [Import_spacy, Spacy_load l d] \<or>
          fst (SpacyEncoder_init rt args kwargs) = [Import_spacy, Spacy_load l d, Super_init])"
  by (auto simp: SpacyEncoder_init_def Let_def
      split: sum.splits exn.splits pyval.splits option.splits)

text \<open>
  C10. The checks run in the order: keyword \<^verbatim>\<open>tokenize\<close>, import of spaCy, language
  code, load of the model.
  (1) With \<^verbatim>\<open>tokenize\<close> supplied the constructor raises the \<^verbatim>\<open>TypeError\<close> of the
  first check, having done nothing else, whether spaCy is present or missing.
  (2) Without it and with spaCy missing, it prints the guidance and raises the
  \<^verbatim>\<open>ImportError\<close>, whatever the language code, so not the error of the language check.
  (3) With spaCy present and an unsupported code, it raises the \<^verbatim>\<open>ValueError\<close> of the
  language check, and no load has been attempted.
  (4) With spaCy present and a supported code (\<^verbatim>\<open>en\<close> when none is given), the import
  is followed by the call of \<^verbatim>\<open>spacy.load\<close> for that code: when the call raises
  \<^verbatim>\<open>OSError\<close> the constructor raises the \<^verbatim>\<open>ValueError\<close> of the missing model, and
  when it returns a pipeline the base constructor is called with \<^verbatim>\<open>_tokenize\<close> bound
  to that pipeline and decides the result.
  (5) Every trace of the constructor is an import, then at most one load, then at most
  one call of the base constructor, or the import and the printed guidance, or nothing.
\<close>

theorem validation_order:
  "(kwargs ''tokenize'' = Some f \<longrightarrow>
      SpacyEncoder_init rt args kwargs = ([], Inl (TypeError tokenize_message)) \<and>
      InvalidArgument (TypeError tokenize_message)) \<and>
   (kwargs ''tokenize'' = None \<and> import_spacy rt = Inl (ImportError m) \<longrightarrow>
      SpacyEncoder_init rt args kwargs
        = ([Import_spacy, Print install_message], Inl (ImportError m)) \<and>
      DependencyMissing (ImportError m) \<and>
      snd (SpacyEncoder_init rt args kwargs)
        \<noteq> Inl (ValueError (unsupported_message l supported_languages))) \<and>
   (kwargs ''tokenize'' = None \<and> import_spacy rt = Inr spacy_mod \<and>
    kwargs ''language'' = Some (Str l) \<and> l \<notin> set supported_languages \<longrightarrow>
      SpacyEncoder_init rt args kwargs
        = ([Import_spacy], Inl (ValueError (unsupported_message l supported_languages)))) \<and>
   (kwargs ''tokenize'' = None \<and> import_spacy rt = Inr spacy_mod \<and>
    (case kwargs ''language'' of None \<Rightarrow> Str ''en'' | Some v \<Rightarrow> v) = Str l \<and>
    l \<in> set supported_languages \<longrightarrow>
      take 2 (fst (SpacyEncoder_init rt args kwargs))
        = [Import_spacy, Spacy_load l [''parser'', ''tagger'', ''ner'']] \<and>
      (load spacy_mod l [''parser'', ''tagger'', ''ner''] = Inl (OSError m') \<longrightarrow>
         SpacyEncoder_init rt args kwargs
           = ([Import_spacy, Spacy_load l [''parser'', ''tagger'', ''ner'']],
              Inl (ValueError (not_found_message l)))) \<and>
      (load spacy_mod l [''parser'', ''tagger'', ''ner''] = Inr nlp \<longrightarrow>
         SpacyEncoder_init rt args kwargs
           = ([Import_spacy, Spacy_load l [''parser'', ''tagger'', ''ner''], Super_init],
              case super_init rt args kwargs (\<lambda>s. tokenize_fn s nlp) of
                Inl e \<Rightarrow> Inl e
              | Inr base \<Rightarrow>
                  Inr \<lparr>stoi = stoi base, unknown_index = unknown_index base,
                       eos_index = eos_index base, append_eos = append_eos base,
                       spacy = nlp\<rparr>))) \<and>
   (fst (SpacyEncoder_init rt args kwargs) = [] \<or>
    fst (SpacyEncoder_init rt args kwargs) = [Import_spacy] \<or>
    fst (SpacyEncoder_init rt args kwargs) = [Import_spacy, Print install_message] \<or>
    (\<exists>l' d. fst (SpacyEncoder_init rt args kwargs) = [Import_spacy, Spacy_load l' d] \<or>
            fst (SpacyEncoder_init rt args kwargs) = [Import_spacy, Spacy_load l' d, Super_init]))"
proof -
  have 1: "kwargs ''tokenize'' = Some f \<Longrightarrow>
           SpacyEncoder_init rt args kwargs = ([], Inl (TypeError tokenize_message))"
    by (simp add: SpacyEncoder_init_def)
  have 2: "kwargs ''tokenize'' = None \<Longrightarrow> import_spacy rt = Inl (ImportError m) \<Longrightarrow>
           SpacyEncoder_init rt args kwargs
             = ([Import_spacy, Print install_message], Inl (ImportError m))"
    by (simp add: SpacyEncoder_init_def)
  have 3: "kwargs ''tokenize'' = None \<Longrightarrow> import_spacy rt = Inr spacy_mod \<Longrightarrow>
           kwargs ''language'' = Some (Str l) \<Longrightarrow> l \<notin> set supported_languages \<Longrightarrow>
           SpacyEncoder_init rt args kwargs
             = ([Import_spacy], Inl (ValueError (unsupported_message l supported_languages)))"
    by (simp add: SpacyEncoder_init_def)
  have 4: "take 2 (fst (SpacyEncoder_init rt args kwargs))
             = [Import_spacy, Spacy_load l [''parser'', ''tagger'', ''ner'']]"
    if "kwargs ''tokenize'' = None" "import_spacy rt = Inr spacy_mod"
      "(case kwargs ''language'' of None \<Rightarrow> Str ''en'' | Some v \<Rightarrow> v) = Str l"
      "l \<in> set supported_languages"
    using that by (simp add: SpacyEncoder_init_def Let_def split: sum.splits exn.splits)
  have 5: "SpacyEncoder_init rt args kwargs
             = ([Import_spacy, Spacy_load l [''parser'', ''tagger'', ''ner'']],
                Inl (ValueError (not_found_message l)))"
    if "kwargs ''tokenize'' = None" "import_spacy rt = Inr spacy_mod"
      "(case kwargs ''language'' of None \<Rightarrow> Str ''en'' | Some v \<Rightarrow> v) = Str l"
      "l \<in> set supported_languages"
      "load spacy_mod l [''parser'', ''tagger'', ''ner''] = Inl (OSError m')"
    using that by (simp add: SpacyEncoder_init_def Let_def)
  have 6: "SpacyEncoder_init rt args kwargs
           = ([Import_spacy, Spacy_load l [''parser'', ''tagger'', ''ner''], Super_init],
              case super_init rt args kwargs (\<lambda>s. tokenize_fn s nlp) of
                Inl e \<Rightarrow> Inl e
              | Inr base \<Rightarrow>
                  Inr \<lparr>stoi = stoi base, unknown_index = unknown_index base,
                       eos_index = eos_index base, append_eos = append_eos base,
                       spacy = nlp\<rparr>)"
    if "kwargs ''tokenize'' = None" "import_spacy rt = Inr spacy_mod"
      "(case kwargs ''language'' of None \<Rightarrow> Str ''en'' | Some v \<Rightarrow> v) = Str l"
      "l \<in> set supported_languages"
      "load spacy_mod l [''parser'', ''tagger'', ''ner''] = Inr nlp"
    using that by (simp add: SpacyEncoder_init_def Let_def split: sum.splits)
  show ?thesis
    using 1 2 3 4 5 6 init_trace [of rt args kwargs] by simp
qed

theorem validation_order_witness:
  "SpacyEncoder_init without_spacy [] [''tokenize'' \<mapsto> Obj (), ''language'' \<mapsto> Str ''zz'']
     = ([], Inl (TypeError ''Encoder does not take keyword argument tokenize.'')) \<and>
   SpacyEncoder_init without_spacy [] [''language'' \<mapsto> Str ''zz'']
     = ([Import_spacy, Print ''Please install spaCy: `pip install spacy`''],
        Inl (ImportError ''No module named spacy'')) \<and>
   SpacyEncoder_init with_spacy [] [''language'' \<mapsto> Str ''zz'']
     = ([Import_spacy], Inl (ValueError (unsupported_message ''zz'' supported_languages))) \<and>
   SpacyEncoder_init with_spacy [] [''language'' \<mapsto> Str ''de'']
     = ([Import_spacy, Spacy_load ''de'' [''parser'', ''tagger'', ''ner'']],
        Inl (ValueError (not_found_message ''de''))) \<and>
   SpacyEncoder_init with_spacy [] Map.empty
     = ([Import_spacy, Spacy_load ''en'' [''parser'', ''tagger'', ''ner''], Super_init],
        Inr (abc_encoder True))"
proof -
  have i: "import_spacy without_spacy = Inl (ImportError ''No module named spacy'')"
    "import_spacy with_spacy = Inr english_only"
    by (simp_all add: without_spacy_def with_spacy_def)
  have s: "''zz'' \<notin> set supported_languages" "''de'' \<in> set supported_languages"
    "''en'' \<in> set supported_languages"
    by (simp_all add: supported_languages_def)
  have l: "load english_only ''de'' [''parser'', ''tagger'', ''ner''] = Inl (OSError ''model not found'')"
    "load english_only ''en'' [''parser'', ''tagger'', ''ner''] = Inr char_nlp"
    by (simp_all add: english_only_def)
  have b: "super_init with_spacy [] Map.empty (\<lambda>s. tokenize_fn s char_nlp) = Inr abc_base"
    by (simp add: with_spacy_def)
  have 1: "SpacyEncoder_init without_spacy [] [''tokenize'' \<mapsto> Obj (), ''language'' \<mapsto> Str ''zz'']
     = ([], Inl (TypeError ''Encoder does not take keyword argument tokenize.''))"
    using validation_order
      [of "[''tokenize'' \<mapsto> Obj (), ''language'' \<mapsto> Str ''zz'']" "Obj ()" without_spacy "[]"]
    by (simp add: tokenize_message_def)
  have 2: "SpacyEncoder_init without_spacy [] [''language'' \<mapsto> Str ''zz'']
     = ([Import_spacy, Print ''Please install spaCy: `pip install spacy`''],
        Inl (ImportError ''No module named spacy''))"
    using validation_order
      [of "[''language'' \<mapsto> Str ''zz'']" _ without_spacy "[]" "''No module named spacy''"] i
    by (simp add: install_message_def)
  have 3: "SpacyEncoder_init with_spacy [] [''language'' \<mapsto> Str ''zz'']
     = ([Import_spacy], Inl (ValueError (unsupported_message ''zz'' supported_languages)))"
    using validation_order
      [of "[''language'' \<mapsto> Str ''zz'']" _ with_spacy "[]" _ "''zz''" english_only] i s
    by simp
  have 4: "SpacyEncoder_init with_spacy [] [''language'' \<mapsto> Str ''de'']
     = ([Import_spacy, Spacy_load ''de'' [''parser'', ''tagger'', ''ner'']],
        Inl (ValueError (not_found_message ''de'')))"
    using validation_order
      [of "[''language'' \<mapsto> Str ''de'']" _ with_spacy "[]" _ "''de''" english_only
        "''model not found''"] i s l
    by simp
  have 5: "SpacyEncoder_init with_spacy [] Map.empty
     = ([Import_spacy, Spacy_load ''en'' [''parser'', ''tagger'', ''ner''], Super_init],
        Inr (abc_encoder True))"
    using validation_order
      [of Map.empty _ with_spacy "[]" _ "''en''" english_only _ char_nlp] i s l b
    by (simp add: abc_base_def abc_encoder_def)
  show ?thesis
    using 1 2 3 4 5 by simp
qed

subsection \<open>The vectors of the batch path\<close>

lemma encode_tokens_unknown:
  "j < length d \<Longrightarrow> stoi self (tok_text (d ! j)) = None \<Longrightarrow>
   encode_tokens self d ! j = unknown_index self"
  by (simp add: encode_tokens_def dict_get_def nth_append Let_def)

lemma batch_encode_returns_docs:
  assumes "pipe (spacy self) sequences (- 1) = map Inr docs"
    and "snd (batch_encode self sequences) = Inr vs"
  shows "vs = map (encode_tokens self) docs"
proof -
  from assms have "for_each (\<lambda>d. torch_tensor (encode_tokens self d)) docs = Inr vs"
    by (simp add: batch_encode_docs)
  from for_each_returns [OF this] have "length vs = length docs"
    and "\<forall>i<length docs. vs ! i = encode_tokens self (docs ! i)"
    by (auto simp: torch_tensor_returns)
  then show ?thesis by (simp add: list_eq_iff_nth_eq)
qed

lemma batch_encode_in_range:
  assumes "pipe (spacy self) sequences (- 1) = map Inr docs"
    and "\<forall>d\<in>set docs. list_all int64 (encode_tokens self d)"
  shows "snd (batch_encode self sequences) = Inr (map (encode_tokens self) docs)"
proof -
  from assms(2) have "\<forall>d\<in>set docs. \<exists>t. torch_tensor (encode_tokens self d) = Inr t"
    by (simp add: torch_tensor_returns)
  from for_each_total [OF this] obtain vs
    where "for_each (\<lambda>d. torch_tensor (encode_tokens self d)) docs = Inr vs"
    by blast
  with assms(1) have r: "snd (batch_encode self sequences) = Inr vs"
    by (simp add: batch_encode_docs)
  with batch_encode_returns_docs [OF assms(1) r] show ?thesis by simp
qed

lemma batch_encode_overflow:
  assumes "pipe (spacy self) sequences (- 1) = map Inr docs"
    and "\<not> (\<forall>d\<in>set docs. list_all int64 (encode_tokens self d))"
  shows "snd (batch_encode self sequences) = Inl (RuntimeError overflow_message)"
proof (cases "snd (batch_encode self sequences)")
  case (Inl e)
  with assms(1) have "for_each (\<lambda>d. torch_tensor (encode_tokens self d)) docs = Inl e"
    by (simp add: batch_encode_docs)
  from for_each_raises [OF this] have "e = RuntimeError overflow_message"
    by (auto simp: torch_tensor_raises)
  with Inl show ?thesis by simp
next
  case (Inr vs)
  with assms(1) have "for_each (\<lambda>d. torch_tensor (encode_tokens self d)) docs = Inr vs"
    by (simp add: batch_encode_docs)
  from for_each_returns [OF this]
  have "\<forall>i<length docs. list_all int64 (encode_tokens self (docs ! i))"
    by (auto simp: torch_tensor_returns)
  then have "\<forall>d\<in>set docs. list_all int64 (encode_tokens self d)"
    by (auto simp: in_set_conv_nth)
  with assms(2) show ?thesis by simp
qed

text \<open>
  C6. \<open>batch_encode\<close> goes through the documents the pipeline yields in the order
  they are yielded and makes one tensor of each. On a tokenizer whose \<open>pipe\<close> goes
  through the texts in order, whenever \<open>batch_encode\<close> returns, the output is as long
  as the input and its i-th vector is the encoding of the tokens of the i-th string;
  and it does return when the tokenizer fails on none of the strings and every index
  fits the tensor.
\<close>

theorem batch_encode_one_vector_per_input:
  "(pipe (spacy self) sequences (- 1) = map Inr docs \<longrightarrow>
      snd (batch_encode self sequences)
        = for_each (\<lambda>d. torch_tensor (encode_tokens self d)) docs) \<and>
   (pipe_in_order (spacy self) sequences \<and> snd (batch_encode self sequences) = Inr vs \<longrightarrow>
      length vs = length sequences \<and>
      (\<forall>i<length sequences. \<exists>doc. call (spacy self) (sequences ! i) = Inr doc \<and>
                                  vs ! i = encode_tokens self doc)) \<and>
   (pipe_in_order (spacy self) sequences \<and>
    (\<forall>s\<in>set sequences. \<exists>doc. call (spacy self) s = Inr doc \<and>
                              list_all int64 (encode_tokens self doc)) \<longrightarrow>
      (\<exists>ws. snd (batch_encode self sequences) = Inr ws))"
proof -
  let ?one = "\<lambda>s. case call (spacy self) s of
                     Inl e \<Rightarrow> Inl e
                   | Inr d \<Rightarrow> torch_tensor (encode_tokens self d)"
  have a: "length vs = length sequences \<and>
           (\<forall>i<length sequences. \<exists>doc. call (spacy self) (sequences ! i) = Inr doc \<and>
                                       vs ! i = encode_tokens self doc)"
    if p: "pipe_in_order (spacy self) sequences"
      and r: "snd (batch_encode self sequences) = Inr vs"
  proof -
    from batch_encode_in_order [OF p] r have "for_each ?one sequences = Inr vs"
      by simp
    from for_each_returns [OF this] have n: "length vs = length sequences"
      and o: "\<forall>i<length sequences. ?one (sequences ! i) = Inr (vs ! i)"
      by auto
    have "\<exists>doc. call (spacy self) (sequences ! i) = Inr doc \<and> vs ! i = encode_tokens self doc"
      if "i < length sequences" for i
    proof (cases "call (spacy self) (sequences ! i)")
      case (Inl e)
      with o that show ?thesis by auto
    next
      case (Inr doc)
      with o that have "torch_tensor (encode_tokens self doc) = Inr (vs ! i)" by auto
      with Inr show ?thesis by (simp add: torch_tensor_returns)
    qed
    with n show ?thesis by simp
  qed
  have b: "\<exists>ws. snd (batch_encode self sequences) = Inr ws"
    if p: "pipe_in_order (spacy self) sequences"
      and c: "\<forall>s\<in>set sequences. \<exists>doc. call (spacy self) s = Inr doc \<and>
                                       list_all int64 (encode_tokens self doc)"
  proof -
    from c have "\<forall>s\<in>set sequences. \<exists>t. ?one s = Inr t"
      by (auto simp: torch_tensor_returns)
    from for_each_total [OF this] obtain ws where "for_each ?one sequences = Inr ws"
      by blast
    with batch_encode_in_order [OF p] show ?thesis by simp
  qed
  show ?thesis
    using a b batch_encode_docs [of self sequences docs] by blast
qed

theorem batch_encode_one_vector_per_input_witness:
  "pipe_in_order (spacy (abc_encoder False)) [''ab'', ''c''] \<and>
   call (spacy (abc_encoder False)) ''ab'' = Inr (char_tokens ''ab'') \<and>
   call (spacy (abc_encoder False)) ''c'' = Inr (char_tokens ''c'') \<and>
   pipe (spacy (abc_encoder False)) [''ab'', ''c''] (- 1)
     = [Inr (char_tokens ''ab''), Inr (char_tokens ''c'')] \<and>
   snd (batch_encode (abc_encoder False) [''ab'', ''c'']) = Inr [[5, 6], [7]] \<and>
   encode_tokens (abc_encoder False) (char_tokens ''ab'') = [5, 6] \<and>
   encode_tokens (abc_encoder False) (char_tokens ''c'') = [7]"
proof -
  have a: "pipe_in_order (spacy (abc_encoder False)) [''ab'', ''c'']"
    by (simp add: pipe_in_order_def abc_encoder_def char_nlp_def)
  have b: "call (spacy (abc_encoder False)) s = Inr (char_tokens s)" for s
    by (simp add: abc_encoder_def char_nlp_def)
  have c: "pipe (spacy (abc_encoder False)) [''ab'', ''c''] (- 1)
     = map Inr [char_tokens ''ab'', char_tokens ''c'']"
    by (simp add: abc_encoder_def char_nlp_def)
  have e: "encode_tokens (abc_encoder False) (char_tokens ''ab'') = [5, 6]"
    "encode_tokens (abc_encoder False) (char_tokens ''c'') = [7]"
    by (simp_all add: encode_tokens_def abc_encoder_def char_tokens_def dict_get_def)
  have t: "torch_tensor [5, 6] = Inr [5, 6]" "torch_tensor [7] = Inr [7]"
    by (simp_all add: torch_tensor_def int64_def)
  show ?thesis
    using batch_encode_one_vector_per_input
      [of "abc_encoder False" "[''ab'', ''c'']" "[char_tokens ''ab'', char_tokens ''c'']"]
      a b c e t
    by simp
qed

text \<open>
  C7, as stated, fails where the unknown index does not fit the tensor: with the
  unknown index \<open>2 ^ 63\<close> and the one-token string \<^verbatim>\<open>z\<close>, whose token is absent from
  the vocabulary, the lookup gives the unknown index and \<^verbatim>\<open>torch.tensor\<close> raises, so
  \<open>batch_encode\<close> raises.
\<close>

theorem absent_token_counterexample:
  "pipe (spacy huge_unknown) [''z''] (- 1) = [Inr (char_tokens ''z'')] \<and>
   stoi huge_unknown (tok_text (char_tokens ''z'' ! 0)) = None \<and>
   encode_tokens huge_unknown (char_tokens ''z'') = [unknown_index huge_unknown] \<and>
   snd (batch_encode huge_unknown [''z'']) = Inl (RuntimeError overflow_message)"
  by (simp add: batch_encode_def huge_unknown_def char_nlp_def char_tokens_def
      encode_tokens_def dict_get_def torch_tensor_def int64_def)

text \<open>
  C7, amended. The lookup of the batch path is total: for a token text that is not a
  key of the vocabulary it gives the unknown index and raises nothing. When the
  pipeline yields its documents and every index of the vectors fits a signed 64-bit
  integer, \<open>batch_encode\<close> returns, with the unknown index at the position of every
  token whose text is absent; when some index does not fit, it raises the
  \<^verbatim>\<open>RuntimeError\<close> of \<^verbatim>\<open>torch.tensor\<close> and nothing else.
\<close>

theorem absent_token_unknown_index:
  assumes "pipe (spacy self) sequences (- 1) = map Inr docs"
  shows "(\<forall>t. stoi self t = None \<longrightarrow>
              dict_get (stoi self) t (unknown_index self) = unknown_index self) \<and>
         ((\<forall>d\<in>set docs. list_all int64 (encode_tokens self d)) \<longrightarrow>
            (\<exists>vs. snd (batch_encode self sequences) = Inr vs \<and>
                  length vs = length docs \<and>
                  (\<forall>i<length docs. \<forall>j<length (docs ! i).
                      stoi self (tok_text (docs ! i ! j)) = None \<longrightarrow>
                      vs ! i ! j = unknown_index self))) \<and>
         (\<not> (\<forall>d\<in>set docs. list_all int64 (encode_tokens self d)) \<longrightarrow>
            snd (batch_encode self sequences) = Inl (RuntimeError overflow_message))"
proof -
  have 1: "\<forall>t. stoi self t = None \<longrightarrow>
               dict_get (stoi self) t (unknown_index self) = unknown_index self"
    by (simp add: dict_get_def)
  have 2: "\<exists>vs. snd (batch_encode self sequences) = Inr vs \<and>
                length vs = length docs \<and>
                (\<forall>i<length docs. \<forall>j<length (docs ! i).
                    stoi self (tok_text (docs ! i ! j)) = None \<longrightarrow>
                    vs ! i ! j = unknown_index self)"
    if "\<forall>d\<in>set docs. list_all int64 (encode_tokens self d)"
    using batch_encode_in_range [OF assms that] by (simp add: encode_tokens_unknown)
  show ?thesis
    using 1 2 batch_encode_overflow [OF assms] by blast
qed

theorem absent_token_unknown_index_witness:
  "pipe (spacy (abc_encoder True)) [''az''] (- 1) = [Inr (char_tokens ''az'')] \<and>
   list_all int64 (encode_tokens (abc_encoder True) (char_tokens ''az'')) \<and>
   stoi (abc_encoder True) (tok_text (char_tokens ''az'' ! 1)) = None \<and>
   snd (batch_encode (abc_encoder True) [''az'']) = Inr [[5, 1, 2]] \<and>
   unknown_index (abc_encoder True) = 1 \<and>
   pipe (spacy huge_unknown) [''az''] (- 1) = [Inr (char_tokens ''az'')] \<and>
   \<not> list_all int64 (encode_tokens huge_unknown (char_tokens ''az'')) \<and>
   snd (batch_encode huge_unknown [''az'']) = Inl (RuntimeError overflow_message)"
proof -
  have a: "pipe (spacy (abc_encoder True)) [''az''] (- 1) = map Inr [char_tokens ''az'']"
    "pipe (spacy huge_unknown) [''az''] (- 1) = map Inr [char_tokens ''az'']"
    by (simp_all add: abc_encoder_def huge_unknown_def char_nlp_def)
  have e: "encode_tokens (abc_encoder True) (char_tokens ''az'') = [5, 1, 2]"
    "encode_tokens huge_unknown (char_tokens ''az'') = [5, 9223372036854775808]"
    by (simp_all add: encode_tokens_def abc_encoder_def huge_unknown_def char_tokens_def
        dict_get_def)
  have r: "list_all int64 [5, 1, 2]" "\<not> list_all int64 [5, 9223372036854775808]"
    by (simp_all add: int64_def)
  have s: "stoi (abc_encoder True) (tok_text (char_tokens ''az'' ! 1)) = None"
    "unknown_index (abc_encoder True) = 1"
    by (simp_all add: abc_encoder_def char_tokens_def)
  from absent_token_unknown_index [OF a(1)] e r
  obtain vs where v: "snd (batch_encode (abc_encoder True) [''az'']) = Inr vs"
    by auto
  from batch_encode_returns_docs [OF a(1) v] e
  have 1: "snd (batch_encode (abc_encoder True) [''az'']) = Inr [[5, 1, 2]]"
    using v by simp
  have 2: "snd (batch_encode huge_unknown [''az'']) = Inl (RuntimeError overflow_message)"
    using absent_token_unknown_index [OF a(2)] e r by simp
  show ?thesis
    using 1 2 a e r s by simp
qed

text \<open>
  C8. When the pipeline yields its documents and \<open>batch_encode\<close> returns: if
  \<open>append_eos\<close> is set, every vector returned ends with \<open>eos_index\<close> and is one longer
  than its document; if it is not set, every vector is the list of the looked-up
  indexes of its document's tokens and nothing more, so it is as long as the document.
  And \<open>batch_encode\<close> does return when every index fits the tensor.
\<close>

theorem batch_encode_eos_suffix:
  assumes "pipe (spacy self) sequences (- 1) = map Inr docs"
  shows "(snd (batch_encode self sequences) = Inr vs \<longrightarrow>
            length vs = length docs \<and>
            (append_eos self \<longrightarrow>
               (\<forall>v\<in>set vs. v \<noteq> [] \<and> last v = eos_index self) \<and>
               (\<forall>i<length docs. length (vs ! i) = length (docs ! i) + 1)) \<and>
            (\<not> append_eos self \<longrightarrow>
               (\<forall>i<length docs.
                  vs ! i = map (\<lambda>t. dict_get (stoi self) (tok_text t) (unknown_index self))
                             (docs ! i) \<and>
                  length (vs ! i) = length (docs ! i)))) \<and>
         ((\<forall>d\<in>set docs. list_all int64 (encode_tokens self d)) \<longrightarrow>
            (\<exists>ws. snd (batch_encode self sequences) = Inr ws))"
proof -
  have on: "encode_tokens self d \<noteq> [] \<and> last (encode_tokens self d) = eos_index self \<and>
            length (encode_tokens self d) = length d + 1"
    if "append_eos self" for d
    using that by (simp add: encode_tokens_def Let_def)
  have off: "encode_tokens self d =
               map (\<lambda>t. dict_get (stoi self) (tok_text t) (unknown_index self)) d"
    if "\<not> append_eos self" for d
    using that by (simp add: encode_tokens_def Let_def comp_def)
  have a: "length vs = length docs \<and>
           (append_eos self \<longrightarrow>
              (\<forall>v\<in>set vs. v \<noteq> [] \<and> last v = eos_index self) \<and>
              (\<forall>i<length docs. length (vs ! i) = length (docs ! i) + 1)) \<and>
           (\<not> append_eos self \<longrightarrow>
              (\<forall>i<length docs.
                 vs ! i = map (\<lambda>t. dict_get (stoi self) (tok_text t) (unknown_index self))
                            (docs ! i) \<and>
                 length (vs ! i) = length (docs ! i)))"
    if r: "snd (batch_encode self sequences) = Inr vs"
  proof -
    have vs: "vs = map (encode_tokens self) docs"
      using assms r by (rule batch_encode_returns_docs)
    show ?thesis
    proof (cases "append_eos self")
      case True
      with vs on show ?thesis by auto
    next
      case False
      with vs off show ?thesis by auto
    qed
  qed
  have b: "\<exists>ws. snd (batch_encode self sequences) = Inr ws"
    if "\<forall>d\<in>set docs. list_all int64 (encode_tokens self d)"
    using batch_encode_in_range [OF assms that] by simp
  show ?thesis
    using a b by blast
qed

theorem batch_encode_eos_suffix_witness:
  "pipe (spacy (abc_encoder True)) [''ab'', []] (- 1)
     = [Inr (char_tokens ''ab''), Inr (char_tokens [])] \<and>
   append_eos (abc_encoder True) \<and>
   snd (batch_encode (abc_encoder True) [''ab'', []]) = Inr [[5, 6, 2], [2]] \<and>
   pipe (spacy (abc_encoder False)) [''ab'', []] (- 1)
     = [Inr (char_tokens ''ab''), Inr (char_tokens [])] \<and>
   \<not> append_eos (abc_encoder False) \<and>
   snd (batch_encode (abc_encoder False) [''ab'', []]) = Inr [[5, 6], []]"
proof -
  have a: "pipe (spacy (abc_encoder b)) [''ab'', []] (- 1)
             = map Inr [char_tokens ''ab'', char_tokens []]" for b
    by (simp add: abc_encoder_def char_nlp_def)
  have r: "snd (batch_encode (abc_encoder True) [''ab'', []]) = Inr [[5, 6, 2], [2]]"
    "snd (batch_encode (abc_encoder False) [''ab'', []]) = Inr [[5, 6], []]"
    by (simp_all add: batch_encode_def abc_encoder_def char_nlp_def char_tokens_def
        encode_tokens_def dict_get_def torch_tensor_def int64_def)
  show ?thesis
    using batch_encode_eos_suffix [OF a [of True], of "[[5, 6, 2], [2]]"]
      batch_encode_eos_suffix [OF a [of False], of "[[5, 6], []]"] a r
    by (simp add: abc_encoder_def)
qed

text \<open>
  C9. \<open>batch_encode\<close> leaves the encoder as it found it, whether it returns vectors or
  raises: the vocabulary, the unknown index, the end-of-sequence index, the flag and
  the tokenizer handle are those it was called with, so a later call on the same
  encoder gives what it would have given before.
\<close>

theorem batch_encode_keeps_encoder:
  "fst (batch_encode self sequences) = self \<and>
   stoi (fst (batch_encode self sequences)) = stoi self \<and>
   unknown_index (fst (batch_encode self sequences)) = unknown_index self \<and>
   eos_index (fst (batch_encode self sequences)) = eos_index self \<and>
   append_eos (fst (batch_encode self sequences)) = append_eos self \<and>
   spacy (fst (batch_encode self sequences)) = spacy self \<and>
   snd (batch_encode (fst (batch_encode self sequences)) sequences') =
     snd (batch_encode self sequences')"
proof -
  have "fst (batch_encode self sequences) = self"
    by (simp add: batch_encode_def)
  then show ?thesis by simp
qed

end
